theory Spec2Isabelle
  imports Complex_Main
begin

section \<open>Four-bar linkage position analysis (generate\_figures.py)\<close>

text \<open>
  The numeric core of \<^verbatim>\<open>pyscript/generate_figures.py\<close>: the Newton-Raphson solver
  \<^verbatim>\<open>newton_raphson_4bar\<close>, the closed-form initial guess \<^verbatim>\<open>analytical_solution\<close> and the
  sweep loop of \<^verbatim>\<open>generate_figure_a\<close>.

  Numbers: the source computes in IEEE double precision (Python floats and numpy
  \<^verbatim>\<open>float64\<close>). The embedding computes in \<^typ>\<open>real\<close>: rounding, overflow and the special
  values \<^verbatim>\<open>inf\<close> and \<^verbatim>\<open>nan\<close> are not represented. The literal \<^verbatim>\<open>1e-9\<close> is the real
  number \<open>1 / 10 ^ 9\<close>. Where a double computation would leave the finite numbers (a
  numpy division by zero) the model stops with an explicit outcome instead of going on.
\<close>

subsection \<open>numpy helpers\<close>

definition radians :: "real \<Rightarrow> real" where
  "radians d = d * pi / 180"

definition degrees :: "real \<Rightarrow> real" where
  "degrees x = x * 180 / pi"

subsection \<open>newton\_raphson\_4bar\<close>

text \<open>
  The function returns the tuple \<^verbatim>\<open>(theta3, theta4, converged)\<close>, or
  \<^verbatim>\<open>(theta3, theta4, converged, history)\<close> when \<^verbatim>\<open>track_convergence\<close> is set. Both shapes
  are one type here: the fourth component is \<open>None\<close> exactly when the source's variable
  \<^verbatim>\<open>history\<close> is \<^verbatim>\<open>None\<close> (line 59) and the 3-tuple is returned.
\<close>

type_synonym solve_result = "real \<times> real \<times> bool \<times> (nat \<times> real) list option"

definition tol :: real where
  "tol = 1 / 10 ^ 9"

definition max_iter :: nat where
  "max_iter = 100"

text \<open>
  The body of \<^verbatim>\<open>for iteration in range(max_iter)\<close> (lines 61-95) with the code after
  the loop (lines 97-100) as the else branch. The loop variables are \<open>iteration\<close>,
  \<open>theta3\<close>, \<open>theta4\<close> and \<open>history\<close>.
\<close>

function nr_loop ::
  "real \<Rightarrow> real \<Rightarrow> real \<Rightarrow> real \<Rightarrow> real \<Rightarrow> bool \<Rightarrow>
   nat \<Rightarrow> real \<Rightarrow> real \<Rightarrow> (nat \<times> real) list option \<Rightarrow> solve_result" where
  "nr_loop r1 r2 r3 r4 theta2 track_convergence iteration theta3 theta4 history =
    (if iteration < max_iter then
       (let f1 = r2 * cos theta2 + r3 * cos theta3 - r4 * cos theta4 - r1;
            f2 = r2 * sin theta2 + r3 * sin theta3 - r4 * sin theta4;
            error_norm = sqrt (f1 ^ 2 + f2 ^ 2);
            history = (if track_convergence
                       then map_option (\<lambda>h. h @ [(iteration, error_norm)]) history
                       else history)
        in if \<bar>f1\<bar> < tol \<and> \<bar>f2\<bar> < tol then (theta3, theta4, True, history)
           else
             (let J11 = - r3 * sin theta3;
                  J12 = r4 * sin theta4;
                  J21 = r3 * cos theta3;
                  J22 = - r4 * cos theta4;
                  det = J11 * J22 - J12 * J21
              in if \<bar>det\<bar> < 1 / 10 ^ 9 then (theta3, theta4, False, history)
                 else
                   (let d_theta3 = ((- f1) * J22 - (- f2) * J12) / det;
                        d_theta4 = (J11 * (- f2) - J21 * (- f1)) / det
                    in nr_loop r1 r2 r3 r4 theta2 track_convergence (iteration + 1)
                         (theta3 + d_theta3) (theta4 + d_theta4) history)))
     else (theta3, theta4, False, history))"
  by pat_completeness auto
termination
  by (relation "measure (\<lambda>(r1, r2, r3, r4, theta2, track, iteration, rest). max_iter - iteration)")
    auto

declare nr_loop.simps [simp del]

definition newton_raphson_4bar ::
  "real \<Rightarrow> real \<Rightarrow> real \<Rightarrow> real \<Rightarrow> real \<Rightarrow> real \<times> real \<Rightarrow> bool \<Rightarrow> solve_result" where
  "newton_raphson_4bar r1 r2 r3 r4 theta2_deg init_guess track_convergence =
    (let theta2 = radians theta2_deg;
         (theta3, theta4) = init_guess;
         history = (if track_convergence then Some [] else None)
     in nr_loop r1 r2 r3 r4 theta2 track_convergence 0 theta3 theta4 history)"

subsection \<open>analytical\_solution\<close>

text \<open>
  Failures of the source that the model keeps as values. \<open>ZeroDivisionError\<close>: a
  division of Python floats by zero (the link lengths are Python floats, lines 111-113
  and 132-133). \<open>IndexError\<close>: indexing an empty sequence. \<open>NonFinite\<close> is not an
  exception: numpy divides by zero without raising (lines 125, 126, 143), gives
  \<^verbatim>\<open>inf\<close> or \<^verbatim>\<open>nan\<close> and the source carries on with it; the real numbers cannot
  follow, so the model stops there.
\<close>

datatype error = ZeroDivisionError | IndexError | NonFinite

definition py_div :: "real \<Rightarrow> real \<Rightarrow> error + real" where
  "py_div x y = (if y = 0 then Inl ZeroDivisionError else Inr (x / y))"

definition np_div :: "real \<Rightarrow> real \<Rightarrow> error + real" where
  "np_div x y = (if y = 0 then Inl NonFinite else Inr (x / y))"

text \<open>
  The returned pair holds \<^verbatim>\<open>None\<close> or a float in each position. Line 126
  (\<^verbatim>\<open>theta4_solution2\<close>, the root with \<open>- sqrt\<close>) computes a value that is never read;
  it divides by the same \<open>2 * A\<close> as line 125.
\<close>

definition analytical_solution ::
  "real \<Rightarrow> real \<Rightarrow> real \<Rightarrow> real \<Rightarrow> real \<Rightarrow> error + (real option \<times> real option)" where
  "analytical_solution r1 r2 r3 r4 theta2_deg =
    (let theta2 = radians theta2_deg in
     (case py_div r1 r2 of Inl e \<Rightarrow> Inl e | Inr K1 \<Rightarrow>
     (case py_div r1 r4 of Inl e \<Rightarrow> Inl e | Inr K2 \<Rightarrow>
     (case py_div (r1 ^ 2 + r2 ^ 2 + r3 ^ 2 - r4 ^ 2) (2 * r2 * r3) of Inl e \<Rightarrow> Inl e | Inr K3 \<Rightarrow>
     (let A = cos theta2 - K1 - K2 * cos theta2 + K3;
          B = - 2 * sin theta2;
          C = K1 - (K2 + 1) * cos theta2 + K3;
          discriminant = B ^ 2 - 4 * A * C
      in if discriminant < 0 then Inr (None, None)
         else
          (case np_div (- B + sqrt discriminant) (2 * A) of Inl e \<Rightarrow> Inl e | Inr q4 \<Rightarrow>
          (let theta4_solution1 = 2 * arctan q4;
               theta4 = theta4_solution1
           in
           (case py_div r1 r3 of Inl e \<Rightarrow> Inl e | Inr K4 \<Rightarrow>
           (case py_div (r4 ^ 2 - r1 ^ 2 - r2 ^ 2 - r3 ^ 2) (2 * r2 * r3) of Inl e \<Rightarrow> Inl e | Inr K5 \<Rightarrow>
           (let D = cos theta2 - K1 + K4 * cos theta4 + K5;
                E = - 2 * sin theta2;
                F = K1 + (K4 - 1) * cos theta4 + K5;
                discriminant2 = E ^ 2 - 4 * D * F
            in if discriminant2 < 0 then Inr (Some theta4, None)
               else
                (case np_div (- E - sqrt discriminant2) (2 * D) of Inl e \<Rightarrow> Inl e | Inr q3 \<Rightarrow>
                (let theta3 = 2 * arctan q3
                 in Inr (Some theta3, Some theta4)))))))))))))"

subsection \<open>The sweep of generate\_figure\_a\<close>

text \<open>
  An entry of \<^verbatim>\<open>theta3_sol\<close> or \<^verbatim>\<open>theta4_sol\<close>: an angle in degrees, or \<^verbatim>\<open>np.nan\<close>
  for a sample that did not converge.
\<close>

datatype sample = Deg real | NaN

text \<open>
  The loop of lines 169-179 over the remaining samples. Its variables are
  \<open>current_guess\<close>, \<open>theta3_sol\<close> and \<open>theta4_sol\<close>. The list \<open>calls\<close> is not in the
  source: it logs the arguments \<open>(t2, current_guess)\<close> of each call of
  \<^verbatim>\<open>newton_raphson_4bar\<close> (line 170), so that the guesses the solver receives can be
  stated.
\<close>

fun sweep_loop ::
  "real \<Rightarrow> real \<Rightarrow> real \<Rightarrow> real \<Rightarrow> real list \<Rightarrow> real \<times> real \<Rightarrow>
   sample list \<Rightarrow> sample list \<Rightarrow> (real \<times> real \<times> real) list \<Rightarrow>
   sample list \<times> sample list \<times> (real \<times> real \<times> real) list" where
  "sweep_loop r1 r2 r3 r4 [] current_guess theta3_sol theta4_sol calls =
     (theta3_sol, theta4_sol, calls)"
| "sweep_loop r1 r2 r3 r4 (t2 # rest) current_guess theta3_sol theta4_sol calls =
     (case newton_raphson_4bar r1 r2 r3 r4 t2 current_guess False of
        (t3, t4, converged, history) \<Rightarrow>
          if converged
          then sweep_loop r1 r2 r3 r4 rest (t3, t4)
                 (theta3_sol @ [Deg (degrees t3)]) (theta4_sol @ [Deg (degrees t4)])
                 (calls @ [(t2, current_guess)])
          else sweep_loop r1 r2 r3 r4 rest current_guess
                 (theta3_sol @ [NaN]) (theta4_sol @ [NaN])
                 (calls @ [(t2, current_guess)]))"

text \<open>
  Lines 158-179 with the link lengths and the samples as parameters:
  \<^verbatim>\<open>theta2_range[0]\<close> raises on an empty sequence, and the test
  \<^verbatim>\<open>t3_init is None or t4_init is None\<close> selects the fixed guess of line 165.
\<close>

definition position_sweep ::
  "real \<Rightarrow> real \<Rightarrow> real \<Rightarrow> real \<Rightarrow> real list \<Rightarrow>
   error + (sample list \<times> sample list \<times> (real \<times> real \<times> real) list)" where
  "position_sweep r1 r2 r3 r4 theta2_range =
    (case theta2_range of
       [] \<Rightarrow> Inl IndexError
     | first # others \<Rightarrow>
        (case analytical_solution r1 r2 r3 r4 first of
           Inl e \<Rightarrow> Inl e
         | Inr (t3_init, t4_init) \<Rightarrow>
            (let current_guess =
                   (if t3_init = None \<or> t4_init = None
                    then (radians 45, radians 45)
                    else (the t3_init, the t4_init))
             in Inr (sweep_loop r1 r2 r3 r4 theta2_range current_guess [] [] []))))"

text \<open>
  \<^verbatim>\<open>generate_figure_a\<close> up to its plotting: the fixed lengths of line 155 and
  \<^verbatim>\<open>np.linspace(0, 360, 361)\<close>, the 361 samples 0, 1, ..., 360.
\<close>

definition generate_figure_a ::
  "error + (sample list \<times> sample list \<times> (real \<times> real \<times> real) list)" where
  "generate_figure_a = position_sweep 6 2 5 5 (map real [0..<361])"

subsection \<open>Vocabulary for the solver's iterations\<close>

text \<open>
  The quantities of one loop iteration, as functions of the angles \<open>(theta3, theta4)\<close>
  the iteration starts with: the residuals (lines 63-64), the error norm (line 66), the
  convergence test (line 71), the determinant (lines 77-82), the singularity test
  (line 84) and the Newton update (lines 91-95).
\<close>

definition resid_f1 :: "real \<Rightarrow> real \<Rightarrow> real \<Rightarrow> real \<Rightarrow> real \<Rightarrow> real \<times> real \<Rightarrow> real" where
  "resid_f1 r1 r2 r3 r4 theta2 a =
    (case a of (theta3, theta4) \<Rightarrow> r2 * cos theta2 + r3 * cos theta3 - r4 * cos theta4 - r1)"

definition resid_f2 :: "real \<Rightarrow> real \<Rightarrow> real \<Rightarrow> real \<Rightarrow> real \<Rightarrow> real \<times> real \<Rightarrow> real" where
  "resid_f2 r1 r2 r3 r4 theta2 a =
    (case a of (theta3, theta4) \<Rightarrow> r2 * sin theta2 + r3 * sin theta3 - r4 * sin theta4)"

definition error_norm_at :: "real \<Rightarrow> real \<Rightarrow> real \<Rightarrow> real \<Rightarrow> real \<Rightarrow> real \<times> real \<Rightarrow> real" where
  "error_norm_at r1 r2 r3 r4 theta2 a =
    sqrt ((resid_f1 r1 r2 r3 r4 theta2 a) ^ 2 + (resid_f2 r1 r2 r3 r4 theta2 a) ^ 2)"

definition within_tol :: "real \<Rightarrow> real \<Rightarrow> real \<Rightarrow> real \<Rightarrow> real \<Rightarrow> real \<times> real \<Rightarrow> bool" where
  "within_tol r1 r2 r3 r4 theta2 a =
    (\<bar>resid_f1 r1 r2 r3 r4 theta2 a\<bar> < tol \<and> \<bar>resid_f2 r1 r2 r3 r4 theta2 a\<bar> < tol)"

definition jac_det :: "real \<Rightarrow> real \<Rightarrow> real \<times> real \<Rightarrow> real" where
  "jac_det r3 r4 a =
    (case a of (theta3, theta4) \<Rightarrow>
       (- r3 * sin theta3) * (- r4 * cos theta4) - (r4 * sin theta4) * (r3 * cos theta3))"

definition singular :: "real \<Rightarrow> real \<Rightarrow> real \<times> real \<Rightarrow> bool" where
  "singular r3 r4 a = (\<bar>jac_det r3 r4 a\<bar> < 1 / 10 ^ 9)"

definition newton_update ::
  "real \<Rightarrow> real \<Rightarrow> real \<Rightarrow> real \<Rightarrow> real \<Rightarrow> real \<times> real \<Rightarrow> real \<times> real" where
  "newton_update r1 r2 r3 r4 theta2 a =
    (case a of (theta3, theta4) \<Rightarrow>
       (let f1 = resid_f1 r1 r2 r3 r4 theta2 a;
            f2 = resid_f2 r1 r2 r3 r4 theta2 a;
            J11 = - r3 * sin theta3;
            J12 = r4 * sin theta4;
            J21 = r3 * cos theta3;
            J22 = - r4 * cos theta4;
            det = J11 * J22 - J12 * J21;
            d_theta3 = ((- f1) * J22 - (- f2) * J12) / det;
            d_theta4 = (J11 * (- f2) - J21 * (- f1)) / det
        in (theta3 + d_theta3, theta4 + d_theta4)))"

text \<open>The angles after \<open>k\<close> Newton updates of the initial guess.\<close>

definition nr_iterate ::
  "real \<Rightarrow> real \<Rightarrow> real \<Rightarrow> real \<Rightarrow> real \<Rightarrow> real \<times> real \<Rightarrow> nat \<Rightarrow> real \<times> real" where
  "nr_iterate r1 r2 r3 r4 theta2 init_guess k =
    (newton_update r1 r2 r3 r4 theta2 ^^ k) init_guess"

text \<open>
  Iteration \<open>k\<close> of the loop is started (with the angles \<open>nr_iterate \<dots> k\<close>) when no
  earlier iteration returned: none met the tolerance and none was singular.
\<close>

definition started ::
  "real \<Rightarrow> real \<Rightarrow> real \<Rightarrow> real \<Rightarrow> real \<Rightarrow> real \<times> real \<Rightarrow> nat \<Rightarrow> bool" where
  "started r1 r2 r3 r4 theta2 init_guess k =
    (\<forall>j<k. \<not> within_tol r1 r2 r3 r4 theta2 (nr_iterate r1 r2 r3 r4 theta2 init_guess j) \<and>
            \<not> singular r3 r4 (nr_iterate r1 r2 r3 r4 theta2 init_guess j))"

text \<open>The history after \<open>n\<close> iterations were examined: one entry per iteration.\<close>

definition history_upto ::
  "real \<Rightarrow> real \<Rightarrow> real \<Rightarrow> real \<Rightarrow> real \<Rightarrow> real \<times> real \<Rightarrow> nat \<Rightarrow> (nat \<times> real) list" where
  "history_upto r1 r2 r3 r4 theta2 init_guess n =
    map (\<lambda>i. (i, error_norm_at r1 r2 r3 r4 theta2 (nr_iterate r1 r2 r3 r4 theta2 init_guess i)))
      [0..<n]"

text \<open>Components of a result tuple.\<close>

definition res_angles :: "solve_result \<Rightarrow> real \<times> real" where
  "res_angles res = (case res of (theta3, theta4, converged, history) \<Rightarrow> (theta3, theta4))"

definition res_converged :: "solve_result \<Rightarrow> bool" where
  "res_converged res = (case res of (theta3, theta4, converged, history) \<Rightarrow> converged)"

definition res_history :: "solve_result \<Rightarrow> (nat \<times> real) list option" where
  "res_history res = (case res of (theta3, theta4, converged, history) \<Rightarrow> history)"

text \<open>The history after line 69 of iteration \<open>i\<close>, which starts with the angles \<open>a\<close>.\<close>

definition log_entry ::
  "real \<Rightarrow> real \<Rightarrow> real \<Rightarrow> real \<Rightarrow> real \<Rightarrow> bool \<Rightarrow> nat \<Rightarrow> real \<times> real \<Rightarrow>
   (nat \<times> real) list option \<Rightarrow> (nat \<times> real) list option" where
  "log_entry r1 r2 r3 r4 theta2 track i a h =
    (if track then map_option (\<lambda>h. h @ [(i, error_norm_at r1 r2 r3 r4 theta2 a)]) h else h)"

text \<open>The variable \<^verbatim>\<open>history\<close> after \<open>n\<close> iterations were examined.\<close>

definition tracked ::
  "real \<Rightarrow> real \<Rightarrow> real \<Rightarrow> real \<Rightarrow> real \<Rightarrow> real \<times> real \<Rightarrow> bool \<Rightarrow> nat \<Rightarrow>
   (nat \<times> real) list option" where
  "tracked r1 r2 r3 r4 theta2 g track n =
    (if track then Some (history_upto r1 r2 r3 r4 theta2 g n) else None)"

subsection \<open>The loop, iteration by iteration\<close>

lemma nr_loop_exhausted:
  "\<not> iteration < max_iter \<Longrightarrow>
   nr_loop r1 r2 r3 r4 theta2 track iteration theta3 theta4 h = (theta3, theta4, False, h)"
  by (subst nr_loop.simps) (simp only: if_False)

lemmas nr_unfold = within_tol_def singular_def jac_det_def resid_f1_def resid_f2_def
  error_norm_at_def log_entry_def newton_update_def Let_def prod.case

lemma nr_loop_converged:
  "iteration < max_iter \<Longrightarrow> within_tol r1 r2 r3 r4 theta2 (theta3, theta4) \<Longrightarrow>
   nr_loop r1 r2 r3 r4 theta2 track iteration theta3 theta4 h =
     (theta3, theta4, True, log_entry r1 r2 r3 r4 theta2 track iteration (theta3, theta4) h)"
  by (subst nr_loop.simps) (simp only: nr_unfold if_True simp_thms)

lemma nr_loop_singular:
  "iteration < max_iter \<Longrightarrow> \<not> within_tol r1 r2 r3 r4 theta2 (theta3, theta4) \<Longrightarrow>
   singular r3 r4 (theta3, theta4) \<Longrightarrow>
   nr_loop r1 r2 r3 r4 theta2 track iteration theta3 theta4 h =
     (theta3, theta4, False, log_entry r1 r2 r3 r4 theta2 track iteration (theta3, theta4) h)"
  by (subst nr_loop.simps) (simp only: nr_unfold if_True if_False simp_thms)

lemma nr_loop_continue:
  "iteration < max_iter \<Longrightarrow> \<not> within_tol r1 r2 r3 r4 theta2 (theta3, theta4) \<Longrightarrow>
   \<not> singular r3 r4 (theta3, theta4) \<Longrightarrow>
   nr_loop r1 r2 r3 r4 theta2 track iteration theta3 theta4 h =
     (case newton_update r1 r2 r3 r4 theta2 (theta3, theta4) of (theta3', theta4') \<Rightarrow>
       nr_loop r1 r2 r3 r4 theta2 track (Suc iteration) theta3' theta4'
         (log_entry r1 r2 r3 r4 theta2 track iteration (theta3, theta4) h))"
  by (subst nr_loop.simps) (simp only: nr_unfold if_True if_False simp_thms Suc_eq_plus1)

lemma tracked_0: "tracked r1 r2 r3 r4 theta2 g track 0 = (if track then Some [] else None)"
  by (simp add: tracked_def history_upto_def)

lemma log_entry_tracked:
  "log_entry r1 r2 r3 r4 theta2 track k (nr_iterate r1 r2 r3 r4 theta2 g k)
     (tracked r1 r2 r3 r4 theta2 g track k) = tracked r1 r2 r3 r4 theta2 g track (Suc k)"
  by (simp add: log_entry_def tracked_def history_upto_def)

lemma nr_iterate_Suc:
  "nr_iterate r1 r2 r3 r4 theta2 g (Suc k) =
     newton_update r1 r2 r3 r4 theta2 (nr_iterate r1 r2 r3 r4 theta2 g k)"
  by (simp add: nr_iterate_def)

lemma started_Suc:
  "started r1 r2 r3 r4 theta2 g (Suc k) \<longleftrightarrow>
     started r1 r2 r3 r4 theta2 g k \<and>
     \<not> within_tol r1 r2 r3 r4 theta2 (nr_iterate r1 r2 r3 r4 theta2 g k) \<and>
     \<not> singular r3 r4 (nr_iterate r1 r2 r3 r4 theta2 g k)"
  by (auto simp add: started_def less_Suc_eq)

lemma nr_loop_run:
  "started r1 r2 r3 r4 theta2 g k \<Longrightarrow> k \<le> max_iter \<Longrightarrow>
   nr_loop r1 r2 r3 r4 theta2 track 0 (fst g) (snd g) (tracked r1 r2 r3 r4 theta2 g track 0) =
   nr_loop r1 r2 r3 r4 theta2 track k
     (fst (nr_iterate r1 r2 r3 r4 theta2 g k)) (snd (nr_iterate r1 r2 r3 r4 theta2 g k))
     (tracked r1 r2 r3 r4 theta2 g track k)"
proof (induction k)
  case 0
  show ?case by (simp add: nr_iterate_def)
next
  case (Suc k)
  let ?a = "nr_iterate r1 r2 r3 r4 theta2 g k"
  from Suc.prems have st: "started r1 r2 r3 r4 theta2 g k"
    and nt: "\<not> within_tol r1 r2 r3 r4 theta2 (fst ?a, snd ?a)"
    and ns: "\<not> singular r3 r4 (fst ?a, snd ?a)"
    and lt: "k < max_iter"
    by (simp_all add: started_Suc)
  have "nr_loop r1 r2 r3 r4 theta2 track k (fst ?a) (snd ?a) (tracked r1 r2 r3 r4 theta2 g track k) =
        nr_loop r1 r2 r3 r4 theta2 track (Suc k)
          (fst (nr_iterate r1 r2 r3 r4 theta2 g (Suc k)))
          (snd (nr_iterate r1 r2 r3 r4 theta2 g (Suc k)))
          (tracked r1 r2 r3 r4 theta2 g track (Suc k))"
    using nr_loop_continue [OF lt nt ns, of track "tracked r1 r2 r3 r4 theta2 g track k"]
    by (simp only: prod.collapse log_entry_tracked nr_iterate_Suc split_beta)
  with Suc.IH [OF st] lt show ?case by simp
qed

lemma nr_unfold_main:
  "newton_raphson_4bar r1 r2 r3 r4 theta2_deg g track =
   nr_loop r1 r2 r3 r4 (radians theta2_deg) track 0 (fst g) (snd g)
     (tracked r1 r2 r3 r4 (radians theta2_deg) g track 0)"
  by (simp add: newton_raphson_4bar_def tracked_0 split_beta)

lemma nr_result_converged:
  assumes "k < max_iter" "started r1 r2 r3 r4 (radians theta2_deg) g k"
    "within_tol r1 r2 r3 r4 (radians theta2_deg) (nr_iterate r1 r2 r3 r4 (radians theta2_deg) g k)"
  shows "newton_raphson_4bar r1 r2 r3 r4 theta2_deg g track =
    (fst (nr_iterate r1 r2 r3 r4 (radians theta2_deg) g k),
     snd (nr_iterate r1 r2 r3 r4 (radians theta2_deg) g k), True,
     tracked r1 r2 r3 r4 (radians theta2_deg) g track (Suc k))"
proof -
  let ?a = "nr_iterate r1 r2 r3 r4 (radians theta2_deg) g k"
  have w: "within_tol r1 r2 r3 r4 (radians theta2_deg) (fst ?a, snd ?a)"
    using assms(3) by simp
  show ?thesis
    unfolding nr_unfold_main
    using nr_loop_run [OF assms(2), of track] assms(1)
      nr_loop_converged [OF assms(1) w, of track "tracked r1 r2 r3 r4 (radians theta2_deg) g track k"]
    by (simp only: prod.collapse log_entry_tracked less_imp_le)
qed

lemma nr_result_singular:
  assumes "k < max_iter" "started r1 r2 r3 r4 (radians theta2_deg) g k"
    "\<not> within_tol r1 r2 r3 r4 (radians theta2_deg) (nr_iterate r1 r2 r3 r4 (radians theta2_deg) g k)"
    "singular r3 r4 (nr_iterate r1 r2 r3 r4 (radians theta2_deg) g k)"
  shows "newton_raphson_4bar r1 r2 r3 r4 theta2_deg g track =
    (fst (nr_iterate r1 r2 r3 r4 (radians theta2_deg) g k),
     snd (nr_iterate r1 r2 r3 r4 (radians theta2_deg) g k), False,
     tracked r1 r2 r3 r4 (radians theta2_deg) g track (Suc k))"
proof -
  let ?a = "nr_iterate r1 r2 r3 r4 (radians theta2_deg) g k"
  have w: "\<not> within_tol r1 r2 r3 r4 (radians theta2_deg) (fst ?a, snd ?a)"
    and s: "singular r3 r4 (fst ?a, snd ?a)"
    using assms(3,4) by simp_all
  show ?thesis
    unfolding nr_unfold_main
    using nr_loop_run [OF assms(2), of track] assms(1)
      nr_loop_singular [OF assms(1) w s, of track "tracked r1 r2 r3 r4 (radians theta2_deg) g track k"]
    by (simp only: prod.collapse log_entry_tracked less_imp_le)
qed

lemma nr_result_exhausted:
  assumes "started r1 r2 r3 r4 (radians theta2_deg) g max_iter"
  shows "newton_raphson_4bar r1 r2 r3 r4 theta2_deg g track =
    (fst (nr_iterate r1 r2 r3 r4 (radians theta2_deg) g max_iter),
     snd (nr_iterate r1 r2 r3 r4 (radians theta2_deg) g max_iter), False,
     tracked r1 r2 r3 r4 (radians theta2_deg) g track max_iter)"
  unfolding nr_unfold_main
  using nr_loop_run [OF assms, of track] nr_loop_exhausted [of max_iter]
  by simp

text \<open>Every run ends in exactly one of the three ways.\<close>

lemma nr_result_cases:
  obtains
    (converged) k where "k < max_iter" "started r1 r2 r3 r4 (radians theta2_deg) g k"
      "within_tol r1 r2 r3 r4 (radians theta2_deg) (nr_iterate r1 r2 r3 r4 (radians theta2_deg) g k)"
  | (singular) k where "k < max_iter" "started r1 r2 r3 r4 (radians theta2_deg) g k"
      "\<not> within_tol r1 r2 r3 r4 (radians theta2_deg) (nr_iterate r1 r2 r3 r4 (radians theta2_deg) g k)"
      "singular r3 r4 (nr_iterate r1 r2 r3 r4 (radians theta2_deg) g k)"
  | (exhausted) "started r1 r2 r3 r4 (radians theta2_deg) g max_iter"
proof -
  let ?E = "\<lambda>j. within_tol r1 r2 r3 r4 (radians theta2_deg) (nr_iterate r1 r2 r3 r4 (radians theta2_deg) g j)
     \<or> singular r3 r4 (nr_iterate r1 r2 r3 r4 (radians theta2_deg) g j)"
  show thesis
  proof (cases "\<exists>j<max_iter. ?E j")
    case False
    then have "started r1 r2 r3 r4 (radians theta2_deg) g max_iter"
      by (simp add: started_def)
    then show thesis by (rule exhausted)
  next
    case True
    define k where "k = (LEAST j. j < max_iter \<and> ?E j)"
    from True have ex: "\<exists>j. j < max_iter \<and> ?E j" by blast
    have k: "k < max_iter \<and> ?E k"
      unfolding k_def using ex by (rule LeastI_ex)
    have "\<And>j. j < k \<Longrightarrow> \<not> (j < max_iter \<and> ?E j)"
      unfolding k_def by (rule not_less_Least)
    with k have st: "started r1 r2 r3 r4 (radians theta2_deg) g k"
      unfolding started_def by auto
    show thesis
    proof (cases "within_tol r1 r2 r3 r4 (radians theta2_deg) (nr_iterate r1 r2 r3 r4 (radians theta2_deg) g k)")
      case True
      with k st show thesis by (intro converged [of k]) simp_all
    next
      case False
      with k st show thesis by (intro singular [of k]) simp_all
    qed
  qed
qed

lemma res_simps:
  "res_angles (a, b, c, h) = (a, b)" "res_converged (a, b, c, h) = c" "res_history (a, b, c, h) = h"
  by (simp_all add: res_angles_def res_converged_def res_history_def)

lemma started_0: "started r1 r2 r3 r4 theta2 g 0"
  by (simp add: started_def)

lemma nr_iterate_0: "nr_iterate r1 r2 r3 r4 theta2 g 0 = g"
  by (simp add: nr_iterate_def)

lemma started_mono:
  "started r1 r2 r3 r4 theta2 g k \<Longrightarrow> j \<le> k \<Longrightarrow> started r1 r2 r3 r4 theta2 g j"
  by (simp add: started_def)

lemma started_no_exit:
  "started r1 r2 r3 r4 theta2 g k \<Longrightarrow> j < k \<Longrightarrow>
     \<not> within_tol r1 r2 r3 r4 theta2 (nr_iterate r1 r2 r3 r4 theta2 g j) \<and>
     \<not> singular r3 r4 (nr_iterate r1 r2 r3 r4 theta2 g j)"
  by (simp add: started_def)

text \<open>An orbit that never meets the tolerance and is never singular.\<close>

lemma orbit_trig:
  "cos (pi / 2 - 2 * real k * pi) = 0" "sin (pi / 2 - 2 * real k * pi) = 1"
  by (simp_all add: cos_diff sin_diff)

lemma radians_90: "radians 90 = pi / 2"
  by (simp add: radians_def)

lemma orbit_update:
  "newton_update (2 * pi - 1) (2 * pi - 1) 1 1 (pi / 2) (pi / 2 - 2 * real k * pi, 2 * real k * pi) =
     (pi / 2 - 2 * real k * pi - 2 * pi, 2 * real k * pi + 2 * pi)"
  by (simp add: newton_update_def resid_f1_def resid_f2_def orbit_trig Let_def)

lemma orbit_iterate:
  "nr_iterate (2 * pi - 1) (2 * pi - 1) 1 1 (radians 90) (pi / 2, 0) k =
     (pi / 2 - 2 * real k * pi, 2 * real k * pi)"
proof (induction k)
  case 0
  show ?case by (simp add: nr_iterate_0)
next
  case (Suc k)
  have "nr_iterate (2 * pi - 1) (2 * pi - 1) 1 1 (radians 90) (pi / 2, 0) (Suc k) =
    (pi / 2 - 2 * real k * pi - 2 * pi, 2 * real k * pi + 2 * pi)"
    unfolding nr_iterate_Suc Suc.IH unfolding radians_90 by (rule orbit_update)
  also have "\<dots> = (pi / 2 - 2 * real (Suc k) * pi, 2 * real (Suc k) * pi)"
    by (simp add: algebra_simps)
  finally show ?case .
qed

lemma orbit_not_within_tol:
  "\<not> within_tol (2 * pi - 1) (2 * pi - 1) 1 1 (radians 90) (pi / 2 - 2 * real k * pi, 2 * real k * pi)"
proof -
  have "resid_f2 (2 * pi - 1) (2 * pi - 1) 1 1 (radians 90) (pi / 2 - 2 * real k * pi, 2 * real k * pi) = 2 * pi"
    by (simp add: resid_f2_def radians_90 orbit_trig)
  moreover have "tol < 2 * pi"
    using pi_ge_two by (simp add: tol_def)
  ultimately show ?thesis
    by (simp add: within_tol_def)
qed

lemma orbit_not_singular:
  "\<not> singular 1 1 (pi / 2 - 2 * real k * pi, 2 * real k * pi)"
  by (simp add: singular_def jac_det_def orbit_trig)

lemma orbit_started:
  "started (2 * pi - 1) (2 * pi - 1) 1 1 (radians 90) (pi / 2, 0) n"
  unfolding started_def orbit_iterate
  using orbit_not_within_tol orbit_not_singular by blast

lemma cramer_2x2:
  fixes a b c d p q :: real
  assumes "a * d - b * c \<noteq> 0"
  shows "a * (((- p) * d - (- q) * b) / (a * d - b * c)) +
         b * ((a * (- q) - c * (- p)) / (a * d - b * c)) = - p"
    and "c * (((- p) * d - (- q) * b) / (a * d - b * c)) +
         d * ((a * (- q) - c * (- p)) / (a * d - b * c)) = - q"
proof -
  have "a * ((- p) * d - (- q) * b) + b * (a * (- q) - c * (- p)) = - p * (a * d - b * c)"
    by (simp add: algebra_simps)
  then have "(a * ((- p) * d - (- q) * b) + b * (a * (- q) - c * (- p))) / (a * d - b * c) = - p"
    using assms by simp
  then show "a * (((- p) * d - (- q) * b) / (a * d - b * c)) +
         b * ((a * (- q) - c * (- p)) / (a * d - b * c)) = - p"
    by (simp only: add_divide_distrib times_divide_eq_right)
  have "c * ((- p) * d - (- q) * b) + d * (a * (- q) - c * (- p)) = - q * (a * d - b * c)"
    by (simp add: algebra_simps)
  then have "(c * ((- p) * d - (- q) * b) + d * (a * (- q) - c * (- p))) / (a * d - b * c) = - q"
    using assms by simp
  then show "c * (((- p) * d - (- q) * b) / (a * d - b * c)) +
         d * ((a * (- q) - c * (- p)) / (a * d - b * c)) = - q"
    by (simp only: add_divide_distrib times_divide_eq_right)
qed

lemmas analytical_unfold = analytical_solution_def Let_def py_div_def np_div_def
  if_True if_False sum.case

subsection \<open>The sweep, sample by sample\<close>

lemma sweep_loop_acc:
  "sweep_loop r1 r2 r3 r4 xs g a b c =
     (case sweep_loop r1 r2 r3 r4 xs g [] [] [] of (A, B, C) \<Rightarrow> (a @ A, b @ B, c @ C))"
proof (induction xs arbitrary: g a b c)
  case Nil
  show ?case by simp
next
  case (Cons t2 rest)
  obtain t3 t4 conv h where res: "newton_raphson_4bar r1 r2 r3 r4 t2 g False = (t3, t4, conv, h)"
    by (cases "newton_raphson_4bar r1 r2 r3 r4 t2 g False") auto
  show ?case
  proof (cases conv)
    case True
    show ?thesis
      using Cons.IH [of "(t3, t4)" "a @ [Deg (degrees t3)]" "b @ [Deg (degrees t4)]" "c @ [(t2, g)]"]
        Cons.IH [of "(t3, t4)" "[Deg (degrees t3)]" "[Deg (degrees t4)]" "[(t2, g)]"]
      by (simp add: res True split: prod.splits)
  next
    case False
    show ?thesis
      using Cons.IH [of g "a @ [NaN]" "b @ [NaN]" "c @ [(t2, g)]"]
        Cons.IH [of g "[NaN]" "[NaN]" "[(t2, g)]"]
      by (simp add: res False split: prod.splits)
  qed
qed

lemma sweep_loop_Cons:
  assumes "sweep_loop r1 r2 r3 r4 rest
      (if res_converged (newton_raphson_4bar r1 r2 r3 r4 t2 g False)
       then res_angles (newton_raphson_4bar r1 r2 r3 r4 t2 g False) else g) [] [] [] = (A, B, C)"
  shows "sweep_loop r1 r2 r3 r4 (t2 # rest) g [] [] [] =
    ((if res_converged (newton_raphson_4bar r1 r2 r3 r4 t2 g False)
      then Deg (degrees (fst (res_angles (newton_raphson_4bar r1 r2 r3 r4 t2 g False)))) else NaN) # A,
     (if res_converged (newton_raphson_4bar r1 r2 r3 r4 t2 g False)
      then Deg (degrees (snd (res_angles (newton_raphson_4bar r1 r2 r3 r4 t2 g False)))) else NaN) # B,
     (t2, g) # C)"
proof -
  obtain t3 t4 conv h where res: "newton_raphson_4bar r1 r2 r3 r4 t2 g False = (t3, t4, conv, h)"
    by (cases "newton_raphson_4bar r1 r2 r3 r4 t2 g False") auto
  show ?thesis
  proof (cases conv)
    case True
    with assms res show ?thesis
      using sweep_loop_acc [of r1 r2 r3 r4 rest "(t3, t4)" "[Deg (degrees t3)]" "[Deg (degrees t4)]" "[(t2, g)]"]
      by (simp add: res_simps)
  next
    case False
    with assms res show ?thesis
      using sweep_loop_acc [of r1 r2 r3 r4 rest g "[NaN]" "[NaN]" "[(t2, g)]"]
      by (simp add: res_simps)
  qed
qed

lemma sweep_loop_trace:
  assumes "sweep_loop r1 r2 r3 r4 xs g0 [] [] [] = (th3, th4, calls)"
  shows "length th3 = length xs \<and> length th4 = length xs \<and> map fst calls = xs \<and>
    (xs \<noteq> [] \<longrightarrow> snd (calls ! 0) = g0) \<and>
    (\<forall>j<length xs.
       th3 ! j = (if res_converged (newton_raphson_4bar r1 r2 r3 r4 (xs ! j) (snd (calls ! j)) False)
                  then Deg (degrees (fst (res_angles (newton_raphson_4bar r1 r2 r3 r4 (xs ! j) (snd (calls ! j)) False))))
                  else NaN) \<and>
       th4 ! j = (if res_converged (newton_raphson_4bar r1 r2 r3 r4 (xs ! j) (snd (calls ! j)) False)
                  then Deg (degrees (snd (res_angles (newton_raphson_4bar r1 r2 r3 r4 (xs ! j) (snd (calls ! j)) False))))
                  else NaN) \<and>
       (Suc j < length xs \<longrightarrow>
          snd (calls ! Suc j) =
            (if res_converged (newton_raphson_4bar r1 r2 r3 r4 (xs ! j) (snd (calls ! j)) False)
             then res_angles (newton_raphson_4bar r1 r2 r3 r4 (xs ! j) (snd (calls ! j)) False)
             else snd (calls ! j))))"
  using assms
proof (induction xs arbitrary: g0 th3 th4 calls)
  case Nil
  then show ?case by auto
next
  case (Cons t2 rest)
  let ?res = "newton_raphson_4bar r1 r2 r3 r4 t2 g0 False"
  let ?g = "if res_converged ?res then res_angles ?res else g0"
  obtain A B C where tl: "sweep_loop r1 r2 r3 r4 rest ?g [] [] [] = (A, B, C)"
    by (cases "sweep_loop r1 r2 r3 r4 rest ?g [] [] []") auto
  note ih = Cons.IH [OF tl]
  from sweep_loop_Cons [OF tl] Cons.prems
  have th3: "th3 = (if res_converged ?res then Deg (degrees (fst (res_angles ?res))) else NaN) # A"
    and th4: "th4 = (if res_converged ?res then Deg (degrees (snd (res_angles ?res))) else NaN) # B"
    and calls: "calls = (t2, g0) # C"
    by simp_all
  from ih have len: "length A = length rest" "length B = length rest" "map fst C = rest"
    and hd: "rest \<noteq> [] \<Longrightarrow> snd (C ! 0) = ?g"
    by simp_all
  show ?case
  proof (intro conjI allI impI)
    show "length th3 = length (t2 # rest)" using th3 len by simp
    show "length th4 = length (t2 # rest)" using th4 len by simp
    show "map fst calls = t2 # rest" using calls len by simp
    show "snd (calls ! 0) = g0" using calls by simp
  next
    fix j assume j: "j < length (t2 # rest)"
    show "th3 ! j = (if res_converged (newton_raphson_4bar r1 r2 r3 r4 ((t2 # rest) ! j) (snd (calls ! j)) False)
                  then Deg (degrees (fst (res_angles (newton_raphson_4bar r1 r2 r3 r4 ((t2 # rest) ! j) (snd (calls ! j)) False))))
                  else NaN)"
    proof (cases j)
      case 0
      then show ?thesis unfolding th3 calls by simp
    next
      case (Suc k)
      with j ih show ?thesis unfolding th3 calls by simp
    qed
    show "th4 ! j = (if res_converged (newton_raphson_4bar r1 r2 r3 r4 ((t2 # rest) ! j) (snd (calls ! j)) False)
                  then Deg (degrees (snd (res_angles (newton_raphson_4bar r1 r2 r3 r4 ((t2 # rest) ! j) (snd (calls ! j)) False))))
                  else NaN)"
    proof (cases j)
      case 0
      then show ?thesis unfolding th4 calls by simp
    next
      case (Suc k)
      with j ih show ?thesis unfolding th4 calls by simp
    qed
    assume sj: "Suc j < length (t2 # rest)"
    show "snd (calls ! Suc j) =
            (if res_converged (newton_raphson_4bar r1 r2 r3 r4 ((t2 # rest) ! j) (snd (calls ! j)) False)
             then res_angles (newton_raphson_4bar r1 r2 r3 r4 ((t2 # rest) ! j) (snd (calls ! j)) False)
             else snd (calls ! j))"
    proof (cases j)
      case 0
      with sj have "rest \<noteq> []" by auto
      from hd [OF this] 0 show ?thesis unfolding calls by simp
    next
      case (Suc k)
      with sj ih show ?thesis unfolding calls by simp
    qed
  qed
qed

lemma chain_most_recent:
  fixes guess ang :: "nat \<Rightarrow> 'a" and conv :: "nat \<Rightarrow> bool"
  assumes step: "\<And>i. Suc i < n \<Longrightarrow> guess (Suc i) = (if conv i then ang i else guess i)"
  shows "i < j \<Longrightarrow> j < n \<Longrightarrow> conv i \<Longrightarrow> (\<forall>m. i < m \<and> m < j \<longrightarrow> \<not> conv m) \<Longrightarrow> guess j = ang i"
proof (induction j)
  case 0
  then show ?case by simp
next
  case (Suc j)
  show ?case
  proof (cases "i = j")
    case True
    with Suc.prems step [of j] show ?thesis by simp
  next
    case False
    with Suc.prems have ij: "i < j" and nc: "\<not> conv j" by auto
    from Suc.prems have "guess j = ang i"
      by (intro Suc.IH ij) auto
    with step [of j] Suc.prems(2) nc show ?thesis by simp
  qed
qed

lemma chain_initial:
  fixes guess ang :: "nat \<Rightarrow> 'a" and conv :: "nat \<Rightarrow> bool"
  assumes step: "\<And>i. Suc i < n \<Longrightarrow> guess (Suc i) = (if conv i then ang i else guess i)"
  shows "j < n \<Longrightarrow> (\<forall>m<j. \<not> conv m) \<Longrightarrow> guess j = guess 0"
proof (induction j)
  case 0
  show ?case by simp
next
  case (Suc j)
  then have "guess j = guess 0" by simp
  with step [of j] Suc.prems show ?case by simp
qed

lemma orbit_result:
  "newton_raphson_4bar (2 * pi - 1) (2 * pi - 1) 1 1 90 (pi / 2, 0) False =
     (pi / 2 - 200 * pi, 200 * pi, False, None)"
  using nr_result_exhausted [OF orbit_started [of max_iter], of False]
  by (simp add: orbit_iterate tracked_def max_iter_def)

lemma rest_result:
  "newton_raphson_4bar 2 1 3 2 0 (0, 0) False = (0, 0, True, None)"
proof -
  have "within_tol 2 1 3 2 (radians 0) (nr_iterate 2 1 3 2 (radians 0) (0, 0) 0)"
    by (simp add: nr_iterate_0 within_tol_def resid_f1_def resid_f2_def radians_def tol_def)
  from nr_result_converged [OF _ started_0 this, of False] show ?thesis
    by (simp add: nr_iterate_0 tracked_def max_iter_def)
qed

lemma fallback_result:
  "newton_raphson_4bar 20 1 1 1 0 (radians 45, radians 45) False =
     (radians 45, radians 45, False, None)"
proof -
  have w: "\<not> within_tol 20 1 1 1 (radians 0) (nr_iterate 20 1 1 1 (radians 0) (radians 45, radians 45) 0)"
    by (simp add: nr_iterate_0 within_tol_def resid_f1_def resid_f2_def tol_def radians_def [of 0])
  have s: "singular 1 1 (nr_iterate 20 1 1 1 (radians 0) (radians 45, radians 45) 0)"
    by (simp add: nr_iterate_0 singular_def jac_det_def)
  from nr_result_singular [OF _ started_0 w s, of False] show ?thesis
    by (simp add: nr_iterate_0 tracked_def max_iter_def)
qed

lemma nr_history_shape:
  "\<exists>N. N \<le> max_iter \<and>
     res_history (newton_raphson_4bar r1 r2 r3 r4 theta2_deg g True) =
       Some (history_upto r1 r2 r3 r4 (radians theta2_deg) g N) \<and>
     (\<forall>j<max_iter. started r1 r2 r3 r4 (radians theta2_deg) g j \<longleftrightarrow> j < N)"
proof (cases rule: nr_result_cases [of r1 r2 r3 r4 theta2_deg g])
  case (converged k)
  have "\<forall>j<max_iter. started r1 r2 r3 r4 (radians theta2_deg) g j \<longleftrightarrow> j < Suc k"
    using converged(2,3) started_mono started_no_exit
    by (metis less_Suc_eq_le not_less)
  with nr_result_converged [OF converged, of True] converged(1) show ?thesis
    by (intro exI [of _ "Suc k"]) (simp add: res_simps tracked_def)
next
  case (singular k)
  have "\<forall>j<max_iter. started r1 r2 r3 r4 (radians theta2_deg) g j \<longleftrightarrow> j < Suc k"
    using singular(2,4) started_mono started_no_exit
    by (metis less_Suc_eq_le not_less)
  with nr_result_singular [OF singular, of True] singular(1) show ?thesis
    by (intro exI [of _ "Suc k"]) (simp add: res_simps tracked_def)
next
  case exhausted
  have "\<forall>j<max_iter. started r1 r2 r3 r4 (radians theta2_deg) g j \<longleftrightarrow> j < max_iter"
    using exhausted started_mono by (metis less_imp_le)
  with nr_result_exhausted [OF exhausted, of True] show ?thesis
    by (intro exI [of _ max_iter]) (simp add: res_simps tracked_def)
qed

lemma history_upto_nth:
  "j < N \<Longrightarrow> history_upto r1 r2 r3 r4 theta2 g N ! j =
     (j, error_norm_at r1 r2 r3 r4 theta2 (nr_iterate r1 r2 r3 r4 theta2 g j))"
  by (simp add: history_upto_def)

lemma nr_result_next_returns:
  assumes "started r1 r2 r3 r4 (radians theta2_deg) g n"
    and "n = max_iter \<or> within_tol r1 r2 r3 r4 (radians theta2_deg)
             (nr_iterate r1 r2 r3 r4 (radians theta2_deg) g n)
         \<or> singular r3 r4 (nr_iterate r1 r2 r3 r4 (radians theta2_deg) g n)"
    and "n \<le> max_iter"
  shows "res_angles (newton_raphson_4bar r1 r2 r3 r4 theta2_deg g track) =
     nr_iterate r1 r2 r3 r4 (radians theta2_deg) g n"
proof (cases "n = max_iter")
  case True
  with assms(1) nr_result_exhausted [of r1 r2 r3 r4 theta2_deg g track] show ?thesis
    by (simp add: res_simps)
next
  case False
  with assms(3) have lt: "n < max_iter" by simp
  show ?thesis
  proof (cases "within_tol r1 r2 r3 r4 (radians theta2_deg)
             (nr_iterate r1 r2 r3 r4 (radians theta2_deg) g n)")
    case True
    from nr_result_converged [OF lt assms(1) True, of track] show ?thesis
      by (simp add: res_simps)
  next
    case nw: False
    with assms(2) \<open>n \<noteq> max_iter\<close>
    have "singular r3 r4 (nr_iterate r1 r2 r3 r4 (radians theta2_deg) g n)" by blast
    from nr_result_singular [OF lt assms(1) nw this, of track] show ?thesis
      by (simp add: res_simps)
  qed
qed

section \<open>The claims\<close>

subsection \<open>The solver\<close>

text \<open>
  C1. \<^verbatim>\<open>newton_raphson_4bar\<close> returns \<^verbatim>\<open>converged = True\<close> if and only if some iteration
  \<open>k\<close> of the loop is started and, at its start, both residuals are below \<open>1e-9\<close> in
  absolute value; the angles returned are then the angles iteration \<open>k\<close> started with
  (the result of \<open>k\<close> Newton updates), which that iteration does not change: the test
  of line 71 comes before the Jacobian of lines 77-82.
\<close>

theorem converged_iff_tolerance_at_start:
  "(res_converged (newton_raphson_4bar r1 r2 r3 r4 theta2_deg g track) \<longleftrightarrow>
      (\<exists>k<max_iter. started r1 r2 r3 r4 (radians theta2_deg) g k \<and>
         within_tol r1 r2 r3 r4 (radians theta2_deg)
           (nr_iterate r1 r2 r3 r4 (radians theta2_deg) g k))) \<and>
   (\<forall>k<max_iter. started r1 r2 r3 r4 (radians theta2_deg) g k \<and>
         within_tol r1 r2 r3 r4 (radians theta2_deg)
           (nr_iterate r1 r2 r3 r4 (radians theta2_deg) g k) \<longrightarrow>
      res_angles (newton_raphson_4bar r1 r2 r3 r4 theta2_deg g track) =
        nr_iterate r1 r2 r3 r4 (radians theta2_deg) g k)"
proof (intro conjI iffI allI impI)
  assume c: "res_converged (newton_raphson_4bar r1 r2 r3 r4 theta2_deg g track)"
  show "\<exists>k<max_iter. started r1 r2 r3 r4 (radians theta2_deg) g k \<and>
         within_tol r1 r2 r3 r4 (radians theta2_deg)
           (nr_iterate r1 r2 r3 r4 (radians theta2_deg) g k)"
  proof (cases rule: nr_result_cases [of r1 r2 r3 r4 theta2_deg g])
    case (converged k)
    then show ?thesis by blast
  next
    case (singular k)
    from nr_result_singular [OF this, of track] c show ?thesis
      by (simp add: res_simps)
  next
    case exhausted
    from nr_result_exhausted [OF this, of track] c show ?thesis
      by (simp add: res_simps)
  qed
next
  assume "\<exists>k<max_iter. started r1 r2 r3 r4 (radians theta2_deg) g k \<and>
         within_tol r1 r2 r3 r4 (radians theta2_deg)
           (nr_iterate r1 r2 r3 r4 (radians theta2_deg) g k)"
  then obtain k where "k < max_iter" "started r1 r2 r3 r4 (radians theta2_deg) g k"
    "within_tol r1 r2 r3 r4 (radians theta2_deg) (nr_iterate r1 r2 r3 r4 (radians theta2_deg) g k)"
    by blast
  from nr_result_converged [OF this, of track]
  show "res_converged (newton_raphson_4bar r1 r2 r3 r4 theta2_deg g track)"
    by (simp add: res_simps)
next
  fix k
  assume "k < max_iter"
    and "started r1 r2 r3 r4 (radians theta2_deg) g k \<and>
         within_tol r1 r2 r3 r4 (radians theta2_deg)
           (nr_iterate r1 r2 r3 r4 (radians theta2_deg) g k)"
  then have "newton_raphson_4bar r1 r2 r3 r4 theta2_deg g track =
    (fst (nr_iterate r1 r2 r3 r4 (radians theta2_deg) g k),
     snd (nr_iterate r1 r2 r3 r4 (radians theta2_deg) g k), True,
     tracked r1 r2 r3 r4 (radians theta2_deg) g track (Suc k))"
    by (intro nr_result_converged) simp_all
  then show "res_angles (newton_raphson_4bar r1 r2 r3 r4 theta2_deg g track) =
        nr_iterate r1 r2 r3 r4 (radians theta2_deg) g k"
    by (simp add: res_simps)
qed

theorem converged_iff_tolerance_at_start_witness:
  "res_converged (newton_raphson_4bar 2 1 3 2 0 (0, 0) False) \<and>
   res_angles (newton_raphson_4bar 2 1 3 2 0 (0, 0) False) = (0, 0)"
proof -
  have w: "within_tol 2 1 3 2 (radians 0) (nr_iterate 2 1 3 2 (radians 0) (0, 0) 0)"
    by (simp add: nr_iterate_0 within_tol_def resid_f1_def resid_f2_def radians_def tol_def)
  have k: "(0::nat) < max_iter" by (simp add: max_iter_def)
  from converged_iff_tolerance_at_start [of 2 1 3 2 0 "(0, 0)" False] w k started_0 [of 2 1 3 2 "radians 0" "(0, 0)"]
  have "res_converged (newton_raphson_4bar 2 1 3 2 0 (0, 0) False)"
    and "res_angles (newton_raphson_4bar 2 1 3 2 0 (0, 0) False) = nr_iterate 2 1 3 2 (radians 0) (0, 0) 0"
    by blast+
  then show ?thesis by (simp add: nr_iterate_0)
qed

text \<open>
  C3. When the determinant computed in iteration \<open>k\<close> is below \<open>1e-9\<close> in absolute
  value (the iteration is started and its residuals are not both within the
  tolerance, so that line 82 is reached), the function returns \<^verbatim>\<open>converged = False\<close>
  with the angles that iteration started with: no update is applied. The outcome is a
  returned tuple; the function has no raise statement and divides only by a
  determinant of absolute value at least \<open>1e-9\<close>.
\<close>

theorem singular_returns_unconverged:
  assumes "k < max_iter" and "started r1 r2 r3 r4 (radians theta2_deg) g k"
    and "\<not> within_tol r1 r2 r3 r4 (radians theta2_deg)
           (nr_iterate r1 r2 r3 r4 (radians theta2_deg) g k)"
    and "\<bar>jac_det r3 r4 (nr_iterate r1 r2 r3 r4 (radians theta2_deg) g k)\<bar> < 1 / 10 ^ 9"
  shows "res_converged (newton_raphson_4bar r1 r2 r3 r4 theta2_deg g track) = False \<and>
    res_angles (newton_raphson_4bar r1 r2 r3 r4 theta2_deg g track) =
      nr_iterate r1 r2 r3 r4 (radians theta2_deg) g k"
proof -
  from assms(4) have "singular r3 r4 (nr_iterate r1 r2 r3 r4 (radians theta2_deg) g k)"
    by (simp add: singular_def)
  from nr_result_singular [OF assms(1-3) this, of track] show ?thesis
    by (simp add: res_simps)
qed

theorem singular_returns_unconverged_witness:
  "res_converged (newton_raphson_4bar 6 2 5 5 0 (0, 0) False) = False \<and>
   res_angles (newton_raphson_4bar 6 2 5 5 0 (0, 0) False) = (0, 0)"
proof -
  have k: "(0::nat) < max_iter" by (simp add: max_iter_def)
  have w: "\<not> within_tol 6 2 5 5 (radians 0) (nr_iterate 6 2 5 5 (radians 0) (0, 0) 0)"
    by (simp add: nr_iterate_0 within_tol_def resid_f1_def resid_f2_def radians_def tol_def)
  have s: "\<bar>jac_det 5 5 (nr_iterate 6 2 5 5 (radians 0) (0, 0) 0)\<bar> < 1 / 10 ^ 9"
    by (simp add: nr_iterate_0 jac_det_def)
  from singular_returns_unconverged [OF k started_0 w s, of False]
  show ?thesis by (simp add: nr_iterate_0)
qed

text \<open>
  C4. The loop is bounded by \<open>max_iter = 100\<close> (\<open>nr_loop\<close> is total, by the measure
  \<open>max_iter - iteration\<close>): the angles returned are those after \<open>n\<close> Newton updates for
  some \<open>n \<le> 100\<close>, every iteration before \<open>n\<close> having gone through. If none of the
  100 iterations meets the tolerance at its start and none is singular, the function
  returns \<^verbatim>\<open>converged = False\<close> with the angles after the 100th update.
\<close>

theorem terminates_within_max_iter:
  "max_iter = 100 \<and>
   (\<exists>n\<le>max_iter. started r1 r2 r3 r4 (radians theta2_deg) g n \<and>
      res_angles (newton_raphson_4bar r1 r2 r3 r4 theta2_deg g track) =
        nr_iterate r1 r2 r3 r4 (radians theta2_deg) g n) \<and>
   (started r1 r2 r3 r4 (radians theta2_deg) g max_iter \<longrightarrow>
      res_converged (newton_raphson_4bar r1 r2 r3 r4 theta2_deg g track) = False \<and>
      res_angles (newton_raphson_4bar r1 r2 r3 r4 theta2_deg g track) =
        nr_iterate r1 r2 r3 r4 (radians theta2_deg) g max_iter)"
proof (intro conjI impI)
  show "max_iter = 100" by (simp add: max_iter_def)
next
  show "\<exists>n\<le>max_iter. started r1 r2 r3 r4 (radians theta2_deg) g n \<and>
      res_angles (newton_raphson_4bar r1 r2 r3 r4 theta2_deg g track) =
        nr_iterate r1 r2 r3 r4 (radians theta2_deg) g n"
  proof (cases rule: nr_result_cases [of r1 r2 r3 r4 theta2_deg g])
    case (converged k)
    from nr_result_converged [OF this, of track] converged(1,2) show ?thesis
      by (intro exI [of _ k]) (simp add: res_simps)
  next
    case (singular k)
    from nr_result_singular [OF this, of track] singular(1,2) show ?thesis
      by (intro exI [of _ k]) (simp add: res_simps)
  next
    case exhausted
    from nr_result_exhausted [OF this, of track] exhausted show ?thesis
      by (intro exI [of _ max_iter]) (simp add: res_simps)
  qed
next
  assume "started r1 r2 r3 r4 (radians theta2_deg) g max_iter"
  from nr_result_exhausted [OF this, of track]
  show "res_converged (newton_raphson_4bar r1 r2 r3 r4 theta2_deg g track) = False"
    and "res_angles (newton_raphson_4bar r1 r2 r3 r4 theta2_deg g track) =
        nr_iterate r1 r2 r3 r4 (radians theta2_deg) g max_iter"
    by (simp_all add: res_simps)
qed

theorem terminates_within_max_iter_witness:
  "res_converged (newton_raphson_4bar (2 * pi - 1) (2 * pi - 1) 1 1 90 (pi / 2, 0) False) = False \<and>
   res_angles (newton_raphson_4bar (2 * pi - 1) (2 * pi - 1) 1 1 90 (pi / 2, 0) False) =
     (pi / 2 - 200 * pi, 200 * pi)"
  using terminates_within_max_iter [of "2 * pi - 1" "2 * pi - 1" 1 1 90 "(pi / 2, 0)" False]
    orbit_started [of max_iter]
  by (simp add: orbit_iterate max_iter_def)

text \<open>
  C9. With \<^verbatim>\<open>track_convergence\<close> set the returned history is
  \<open>[(0, e\<^sub>0), \<dots>, (n - 1, e\<^sub>n\<^sub>-\<^sub>1)]\<close>, where \<open>e\<^sub>i\<close> is the error norm at the start of
  iteration \<open>i\<close> and the iterations \<open>0, \<dots>, n - 1\<close> are exactly the iterations the
  loop started: one entry per iteration examined, the one that returns included
  (line 69 comes before the test of line 71). Its length is between 1 and 100.
\<close>

theorem history_entry_per_iteration:
  "\<exists>n h. res_history (newton_raphson_4bar r1 r2 r3 r4 theta2_deg g True) = Some h \<and>
     h = map (\<lambda>i. (i, error_norm_at r1 r2 r3 r4 (radians theta2_deg)
                        (nr_iterate r1 r2 r3 r4 (radians theta2_deg) g i))) [0..<n] \<and>
     length h = n \<and> 1 \<le> n \<and> n \<le> max_iter \<and>
     (\<forall>k<max_iter. started r1 r2 r3 r4 (radians theta2_deg) g k \<longleftrightarrow> k < n)"
proof (cases rule: nr_result_cases [of r1 r2 r3 r4 theta2_deg g])
  case (converged k)
  have "\<forall>j<max_iter. started r1 r2 r3 r4 (radians theta2_deg) g j \<longleftrightarrow> j < Suc k"
    using converged(2,3) started_mono started_no_exit
    by (metis less_Suc_eq_le not_less)
  with nr_result_converged [OF converged, of True] converged(1) show ?thesis
    by (intro exI [of _ "Suc k"] exI [of _ "history_upto r1 r2 r3 r4 (radians theta2_deg) g (Suc k)"])
      (simp add: res_simps tracked_def history_upto_def)
next
  case (singular k)
  have "\<forall>j<max_iter. started r1 r2 r3 r4 (radians theta2_deg) g j \<longleftrightarrow> j < Suc k"
    using singular(2,4) started_mono started_no_exit
    by (metis less_Suc_eq_le not_less)
  with nr_result_singular [OF singular, of True] singular(1) show ?thesis
    by (intro exI [of _ "Suc k"] exI [of _ "history_upto r1 r2 r3 r4 (radians theta2_deg) g (Suc k)"])
      (simp add: res_simps tracked_def history_upto_def)
next
  case exhausted
  have "\<forall>j<max_iter. started r1 r2 r3 r4 (radians theta2_deg) g j \<longleftrightarrow> j < max_iter"
    using exhausted started_mono by (metis less_imp_le)
  moreover have "1 \<le> max_iter" by (simp add: max_iter_def)
  ultimately show ?thesis
    using nr_result_exhausted [OF exhausted, of True]
    by (intro exI [of _ max_iter] exI [of _ "history_upto r1 r2 r3 r4 (radians theta2_deg) g max_iter"])
      (simp add: res_simps tracked_def history_upto_def)
qed

theorem history_entry_per_iteration_witness:
  "res_history (newton_raphson_4bar 6 2 5 5 0 (0, 0) True) = Some [(0, 4)]"
proof -
  have s: "singular 5 5 (nr_iterate 6 2 5 5 (radians 0) (0, 0) 0)"
    by (simp add: nr_iterate_0 singular_def jac_det_def)
  have n1: "\<not> started 6 2 5 5 (radians 0) (0, 0) 1"
    using s by (simp add: started_def)
  have e: "error_norm_at 6 2 5 5 (radians 0) (nr_iterate 6 2 5 5 (radians 0) (0, 0) 0) = 4"
    by (simp add: nr_iterate_0 error_norm_at_def resid_f1_def resid_f2_def radians_def)
  from history_entry_per_iteration [of 6 2 5 5 0 "(0, 0)"]
  obtain n h where h: "res_history (newton_raphson_4bar 6 2 5 5 0 (0, 0) True) = Some h"
    "h = map (\<lambda>i. (i, error_norm_at 6 2 5 5 (radians 0)
                        (nr_iterate 6 2 5 5 (radians 0) (0, 0) i))) [0..<n]"
    "1 \<le> n" "n \<le> max_iter"
    "\<forall>k<max_iter. started 6 2 5 5 (radians 0) (0, 0) k \<longleftrightarrow> k < n"
    by blast
  have "(1::nat) < max_iter" by (simp add: max_iter_def)
  with h(5) n1 have "\<not> 1 < n" by blast
  with h(3) have "n = 1" by simp
  with h(1,2) e show ?thesis by simp
qed

text \<open>
  C2. What iteration \<open>k\<close> of the loop computes, read off the values the function
  returns. Let \<open>(theta3, theta4)\<close> be the angles iteration \<open>k\<close> starts with, \<open>f1\<close>, \<open>f2\<close>
  the residuals, \<open>J11\<close>, \<open>J12\<close>, \<open>J21\<close>, \<open>J22\<close> the Jacobian entries and
  \<open>det = J11 * J22 - J12 * J21\<close>, all as in the source, and let the iteration neither
  meet the tolerance nor be singular. Then
  \<^item> the quotients \<open>d_theta3\<close>, \<open>d_theta4\<close> of lines 91-92 (the explicit inverse of the
    2 by 2 matrix) solve \<open>J \<cdot> d = - (f1, f2)\<close>;
  \<^item> the next iteration starts with \<open>theta3 + d_theta3\<close> and \<open>theta4 + d_theta4\<close>;
  \<^item> entry \<open>k\<close> of the returned history is \<open>(k, sqrt (f1\<^sup>2 + f2\<^sup>2))\<close>, and entry
    \<open>k + 1\<close>, when there is an iteration \<open>k + 1\<close>, is the error norm of the residuals at
    the updated angles;
  \<^item> when iteration \<open>k + 1\<close> returns (tolerance met or singular at the updated angles),
    or \<open>k\<close> was the last of the 100 iterations, the angles returned are the updated
    angles.
\<close>

theorem newton_iteration_computes:
  fixes r1 r2 r3 r4 theta2_deg :: real and g :: "real \<times> real" and k :: nat
  defines "theta2 \<equiv> radians theta2_deg"
  defines "theta3 \<equiv> fst (nr_iterate r1 r2 r3 r4 theta2 g k)"
    and "theta4 \<equiv> snd (nr_iterate r1 r2 r3 r4 theta2 g k)"
  defines "f1 \<equiv> r2 * cos theta2 + r3 * cos theta3 - r4 * cos theta4 - r1"
    and "f2 \<equiv> r2 * sin theta2 + r3 * sin theta3 - r4 * sin theta4"
    and "J11 \<equiv> - r3 * sin theta3"
    and "J12 \<equiv> r4 * sin theta4"
    and "J21 \<equiv> r3 * cos theta3"
    and "J22 \<equiv> - r4 * cos theta4"
  defines "det \<equiv> J11 * J22 - J12 * J21"
  defines "d_theta3 \<equiv> ((- f1) * J22 - (- f2) * J12) / det"
    and "d_theta4 \<equiv> (J11 * (- f2) - J21 * (- f1)) / det"
  defines "theta3' \<equiv> theta3 + d_theta3"
    and "theta4' \<equiv> theta4 + d_theta4"
  defines "f1' \<equiv> r2 * cos theta2 + r3 * cos theta3' - r4 * cos theta4' - r1"
    and "f2' \<equiv> r2 * sin theta2 + r3 * sin theta3' - r4 * sin theta4'"
    and "det' \<equiv> (- r3 * sin theta3') * (- r4 * cos theta4') - (r4 * sin theta4') * (r3 * cos theta3')"
  assumes "k < max_iter"
    and "started r1 r2 r3 r4 theta2 g k"
    and "\<not> (\<bar>f1\<bar> < tol \<and> \<bar>f2\<bar> < tol)"
    and "\<not> \<bar>det\<bar> < 1 / 10 ^ 9"
  shows "J11 * d_theta3 + J12 * d_theta4 = - f1 \<and>
    J21 * d_theta3 + J22 * d_theta4 = - f2 \<and>
    nr_iterate r1 r2 r3 r4 theta2 g (Suc k) = (theta3', theta4') \<and>
    (\<exists>h. res_history (newton_raphson_4bar r1 r2 r3 r4 theta2_deg g True) = Some h \<and>
       k < length h \<and> h ! k = (k, sqrt (f1 ^ 2 + f2 ^ 2)) \<and>
       (Suc k < max_iter \<longrightarrow>
          Suc k < length h \<and> h ! Suc k = (Suc k, sqrt (f1' ^ 2 + f2' ^ 2)))) \<and>
    (Suc k = max_iter \<or> (\<bar>f1'\<bar> < tol \<and> \<bar>f2'\<bar> < tol) \<or> \<bar>det'\<bar> < 1 / 10 ^ 9 \<longrightarrow>
       res_angles (newton_raphson_4bar r1 r2 r3 r4 theta2_deg g track) = (theta3', theta4'))"
proof -
  let ?a = "nr_iterate r1 r2 r3 r4 theta2 g k"
  let ?a' = "nr_iterate r1 r2 r3 r4 theta2 g (Suc k)"
  have a_eq: "?a = (theta3, theta4)"
    by (simp add: theta3_def theta4_def)
  have f: "resid_f1 r1 r2 r3 r4 theta2 (theta3, theta4) = f1"
    "resid_f2 r1 r2 r3 r4 theta2 (theta3, theta4) = f2"
    by (simp_all only: resid_f1_def resid_f2_def prod.case f1_def f2_def)
  have d: "jac_det r3 r4 (theta3, theta4) = det"
    by (simp only: jac_det_def prod.case det_def J11_def J12_def J21_def J22_def)
  have f': "resid_f1 r1 r2 r3 r4 theta2 (theta3', theta4') = f1'"
    "resid_f2 r1 r2 r3 r4 theta2 (theta3', theta4') = f2'"
    by (simp_all only: resid_f1_def resid_f2_def prod.case f1'_def f2'_def)
  have d': "jac_det r3 r4 (theta3', theta4') = det'"
    by (simp only: jac_det_def prod.case det'_def)
  have upd: "newton_update r1 r2 r3 r4 theta2 (theta3, theta4) = (theta3', theta4')"
    by (simp only: newton_update_def resid_f1_def resid_f2_def prod.case Let_def
        theta3'_def theta4'_def d_theta3_def d_theta4_def det_def
        J11_def J12_def J21_def J22_def f1_def f2_def)
  have a'_eq: "?a' = (theta3', theta4')"
    by (simp only: nr_iterate_Suc a_eq upd)
  have nw: "\<not> within_tol r1 r2 r3 r4 theta2 ?a"
    using assms(20) by (simp only: a_eq within_tol_def f simp_thms)
  have ns: "\<not> singular r3 r4 ?a"
    using assms(21) by (simp only: a_eq singular_def d simp_thms)
  have st': "started r1 r2 r3 r4 theta2 g (Suc k)"
    using assms(19) nw ns by (simp only: started_Suc simp_thms)
  from assms(21) have nz: "J11 * J22 - J12 * J21 \<noteq> 0"
    unfolding det_def by auto
  have s1: "J11 * d_theta3 + J12 * d_theta4 = - f1"
    unfolding d_theta3_def d_theta4_def det_def by (rule cramer_2x2(1) [OF nz])
  have s2: "J21 * d_theta3 + J22 * d_theta4 = - f2"
    unfolding d_theta3_def d_theta4_def det_def by (rule cramer_2x2(2) [OF nz])
  obtain N where N: "N \<le> max_iter"
    "res_history (newton_raphson_4bar r1 r2 r3 r4 theta2_deg g True) =
       Some (history_upto r1 r2 r3 r4 theta2 g N)"
    "\<forall>j<max_iter. started r1 r2 r3 r4 theta2 g j \<longleftrightarrow> j < N"
    using nr_history_shape [of r1 r2 r3 r4 theta2_deg g] unfolding theta2_def by blast
  from N(3) assms(18,19) have kN: "k < N" by blast
  have hk: "history_upto r1 r2 r3 r4 theta2 g N ! k = (k, sqrt (f1 ^ 2 + f2 ^ 2))"
    by (simp only: history_upto_nth [OF kN] a_eq error_norm_at_def f)
  have hk': "Suc k < N \<and>
      history_upto r1 r2 r3 r4 theta2 g N ! Suc k = (Suc k, sqrt (f1' ^ 2 + f2' ^ 2))"
    if "Suc k < max_iter"
  proof -
    from N(3) that st' have sN: "Suc k < N" by blast
    show ?thesis
      by (simp only: history_upto_nth [OF sN] a'_eq error_norm_at_def f' sN simp_thms)
  qed
  have len: "length (history_upto r1 r2 r3 r4 theta2 g N) = N"
    by (simp add: history_upto_def)
  have hist: "\<exists>h. res_history (newton_raphson_4bar r1 r2 r3 r4 theta2_deg g True) = Some h \<and>
       k < length h \<and> h ! k = (k, sqrt (f1 ^ 2 + f2 ^ 2)) \<and>
       (Suc k < max_iter \<longrightarrow>
          Suc k < length h \<and> h ! Suc k = (Suc k, sqrt (f1' ^ 2 + f2' ^ 2)))"
    using N(2) kN hk hk' len by (intro exI [of _ "history_upto r1 r2 r3 r4 theta2 g N"]) simp
  have ang: "res_angles (newton_raphson_4bar r1 r2 r3 r4 theta2_deg g track) = (theta3', theta4')"
    if "Suc k = max_iter \<or> (\<bar>f1'\<bar> < tol \<and> \<bar>f2'\<bar> < tol) \<or> \<bar>det'\<bar> < 1 / 10 ^ 9"
  proof -
    from that have "Suc k = max_iter \<or> within_tol r1 r2 r3 r4 theta2 ?a' \<or> singular r3 r4 ?a'"
      by (simp only: a'_eq within_tol_def singular_def f' d')
    moreover from assms(18) have "Suc k \<le> max_iter" by simp
    ultimately have "res_angles (newton_raphson_4bar r1 r2 r3 r4 theta2_deg g track) = ?a'"
      using st' unfolding theta2_def by (intro nr_result_next_returns)
    then show ?thesis by (simp only: a'_eq)
  qed
  from s1 s2 a'_eq hist ang show ?thesis by blast
qed

theorem newton_iteration_computes_witness:
  "res_angles (newton_raphson_4bar (pi - 1) 2 2 1 (- 90) (pi / 2, 0) False) = (0, 0) \<and>
   (\<exists>h. res_history (newton_raphson_4bar (pi - 1) 2 2 1 (- 90) (pi / 2, 0) True) = Some h \<and>
      h ! 0 = (0, pi) \<and> h ! 1 = (1, sqrt ((2 - pi) ^ 2 + 4)))"
proof -
  have r: "radians (- 90) = - (pi / 2)" by (simp add: radians_def)
  have p: "\<not> pi < 1 / 10 ^ 9" using pi_ge_two by simp
  note w = newton_iteration_computes [where ?r1.0 = "pi - 1" and ?r2.0 = 2 and ?r3.0 = 2
      and ?r4.0 = 1 and theta2_deg = "- 90" and g = "(pi / 2, 0)" and k = 0 and track = False,
      unfolded nr_iterate_0 r fst_conv snd_conv]
  have h1: "(0::nat) < max_iter" "Suc 0 < max_iter" by (simp_all add: max_iter_def)
  from w [OF h1(1) started_0] p h1(2) show ?thesis
    by (auto simp add: tol_def)
qed

subsection \<open>The closed-form initial guess\<close>

text \<open>
  C7. When the discriminant \<open>B\<^sup>2 - 4 A C\<close> is negative, \<^verbatim>\<open>analytical_solution\<close> returns
  \<^verbatim>\<open>(None, None)\<close>: a value, not an exception. The discriminant exists once the three
  quotients \<open>K1\<close>, \<open>K2\<close>, \<open>K3\<close> do, that is for non-zero \<open>r2\<close>, \<open>r3\<close> and \<open>r4\<close>.
\<close>

theorem negative_discriminant_no_solution:
  fixes r1 r2 r3 r4 theta2_deg :: real
  defines "theta2 \<equiv> radians theta2_deg"
  defines "K1 \<equiv> r1 / r2"
    and "K2 \<equiv> r1 / r4"
    and "K3 \<equiv> (r1 ^ 2 + r2 ^ 2 + r3 ^ 2 - r4 ^ 2) / (2 * r2 * r3)"
  defines "A \<equiv> cos theta2 - K1 - K2 * cos theta2 + K3"
    and "B \<equiv> - 2 * sin theta2"
    and "C \<equiv> K1 - (K2 + 1) * cos theta2 + K3"
  assumes "r2 \<noteq> 0" and "r3 \<noteq> 0" and "r4 \<noteq> 0"
    and "B ^ 2 - 4 * A * C < 0"
  shows "analytical_solution r1 r2 r3 r4 theta2_deg = Inr (None, None)"
proof -
  have z: "(r2 = 0) = False" "(r4 = 0) = False" "(r3 = 0) = False" "(2 * r2 * r3 = 0) = False"
    using assms(8-10) by simp_all
  from assms(11) have "(B ^ 2 - 4 * A * C < 0) = True" by simp
  note d = this [unfolded assms(1-7)]
  show ?thesis
    by (simp only: analytical_unfold z d)
qed

theorem negative_discriminant_no_solution_witness:
  "analytical_solution 10 1 1 1 0 = Inr (None, None)"
  by (rule negative_discriminant_no_solution) (simp_all add: radians_def)

text \<open>
  C6. When the discriminant is non-negative the function takes
  \<open>theta4 = 2 arctan ((- B + sqrt discriminant) / (2 A))\<close>, the root with \<open>+ sqrt\<close>, and
  with \<open>K4 = r1 / r3\<close> and \<open>K5 = (r4\<^sup>2 - r1\<^sup>2 - r2\<^sup>2 - r3\<^sup>2) / (2 r2 r3)\<close> back-solves
  \<open>theta3 = 2 arctan ((- E - sqrt discriminant2) / (2 D))\<close>; it returns
  \<open>(theta3, theta4)\<close>. The root with \<open>- sqrt\<close> does not occur in the result. The
  back-solved \<open>theta3\<close> is returned when the second discriminant is non-negative (C10 is
  the other case); \<open>A\<close> and \<open>D\<close> are non-zero, so that both quotients are finite.
\<close>

theorem open_branch_selected:
  fixes r1 r2 r3 r4 theta2_deg :: real
  defines "theta2 \<equiv> radians theta2_deg"
  defines "K1 \<equiv> r1 / r2"
    and "K2 \<equiv> r1 / r4"
    and "K3 \<equiv> (r1 ^ 2 + r2 ^ 2 + r3 ^ 2 - r4 ^ 2) / (2 * r2 * r3)"
  defines "A \<equiv> cos theta2 - K1 - K2 * cos theta2 + K3"
    and "B \<equiv> - 2 * sin theta2"
    and "C \<equiv> K1 - (K2 + 1) * cos theta2 + K3"
  defines "discriminant \<equiv> B ^ 2 - 4 * A * C"
  defines "theta4 \<equiv> 2 * arctan ((- B + sqrt discriminant) / (2 * A))"
  defines "K4 \<equiv> r1 / r3"
    and "K5 \<equiv> (r4 ^ 2 - r1 ^ 2 - r2 ^ 2 - r3 ^ 2) / (2 * r2 * r3)"
  defines "D \<equiv> cos theta2 - K1 + K4 * cos theta4 + K5"
    and "E \<equiv> - 2 * sin theta2"
    and "F \<equiv> K1 + (K4 - 1) * cos theta4 + K5"
  defines "discriminant2 \<equiv> E ^ 2 - 4 * D * F"
  defines "theta3 \<equiv> 2 * arctan ((- E - sqrt discriminant2) / (2 * D))"
  assumes "r2 \<noteq> 0" and "r3 \<noteq> 0" and "r4 \<noteq> 0"
    and "0 \<le> discriminant" and "A \<noteq> 0"
    and "0 \<le> discriminant2" and "D \<noteq> 0"
  shows "analytical_solution r1 r2 r3 r4 theta2_deg = Inr (Some theta3, Some theta4)"
proof -
  have z: "(r2 = 0) = False" "(r4 = 0) = False" "(r3 = 0) = False" "(2 * r2 * r3 = 0) = False"
    using assms(17-19) by simp_all
  from assms(20) have "(discriminant < 0) = False" by simp
  note d = this [unfolded assms(1-16)]
  from assms(21) have "(2 * A = 0) = False" by simp
  note a = this [unfolded assms(1-16)]
  from assms(22) have "(discriminant2 < 0) = False" by simp
  note d2 = this [unfolded assms(1-16)]
  from assms(23) have "(2 * D = 0) = False" by simp
  note dd = this [unfolded assms(1-16)]
  show ?thesis
    unfolding assms(1-16)
    by (simp only: analytical_unfold z d a d2 dd)
qed

theorem open_branch_selected_witness:
  "analytical_solution 2 1 2 1 0 = Inr (Some 0, Some (- (pi / 2)))"
  using open_branch_selected [where ?r1.0 = 2 and ?r2.0 = 1 and ?r3.0 = 2 and ?r4.0 = 1 and theta2_deg = 0]
  by (simp add: radians_def arctan_minus arctan_one)

text \<open>
  C10. When the first discriminant is non-negative and the second, \<open>E\<^sup>2 - 4 D F\<close>, is
  negative, the function returns \<^verbatim>\<open>(theta4, None)\<close>: the first position, which holds
  \<open>theta3\<close> in a full solution, holds the computed \<open>theta4\<close>, and the second is
  \<^verbatim>\<open>None\<close>.
\<close>

theorem second_discriminant_negative_partial:
  fixes r1 r2 r3 r4 theta2_deg :: real
  defines "theta2 \<equiv> radians theta2_deg"
  defines "K1 \<equiv> r1 / r2"
    and "K2 \<equiv> r1 / r4"
    and "K3 \<equiv> (r1 ^ 2 + r2 ^ 2 + r3 ^ 2 - r4 ^ 2) / (2 * r2 * r3)"
  defines "A \<equiv> cos theta2 - K1 - K2 * cos theta2 + K3"
    and "B \<equiv> - 2 * sin theta2"
    and "C \<equiv> K1 - (K2 + 1) * cos theta2 + K3"
  defines "discriminant \<equiv> B ^ 2 - 4 * A * C"
  defines "theta4 \<equiv> 2 * arctan ((- B + sqrt discriminant) / (2 * A))"
  defines "K4 \<equiv> r1 / r3"
    and "K5 \<equiv> (r4 ^ 2 - r1 ^ 2 - r2 ^ 2 - r3 ^ 2) / (2 * r2 * r3)"
  defines "D \<equiv> cos theta2 - K1 + K4 * cos theta4 + K5"
    and "E \<equiv> - 2 * sin theta2"
    and "F \<equiv> K1 + (K4 - 1) * cos theta4 + K5"
  assumes "r2 \<noteq> 0" and "r3 \<noteq> 0" and "r4 \<noteq> 0"
    and "0 \<le> discriminant" and "A \<noteq> 0"
    and "E ^ 2 - 4 * D * F < 0"
  shows "analytical_solution r1 r2 r3 r4 theta2_deg = Inr (Some theta4, None)"
proof -
  have z: "(r2 = 0) = False" "(r4 = 0) = False" "(r3 = 0) = False" "(2 * r2 * r3 = 0) = False"
    using assms(15-17) by simp_all
  from assms(18) have "(discriminant < 0) = False" by simp
  note d = this [unfolded assms(1-14)]
  from assms(19) have "(2 * A = 0) = False" by simp
  note a = this [unfolded assms(1-14)]
  from assms(20) have "(E ^ 2 - 4 * D * F < 0) = True" by simp
  note d2 = this [unfolded assms(1-14)]
  show ?thesis
    unfolding assms(1-14)
    by (simp only: analytical_unfold z d a d2)
qed

theorem second_discriminant_negative_partial_witness:
  "analytical_solution 1 2 2 1 0 = Inr (Some (pi / 2), None)"
  using second_discriminant_negative_partial
    [where ?r1.0 = 1 and ?r2.0 = 2 and ?r3.0 = 2 and ?r4.0 = 1 and theta2_deg = 0]
  by (simp add: radians_def arctan_one)

subsection \<open>The sweep\<close>

text \<open>
  C5. The sweep loop calls the solver once per sample, in order. The guess of the call
  for sample \<open>j + 1\<close> is the \<open>(theta3, theta4)\<close> returned for sample \<open>j\<close> when that
  call converged, and otherwise the guess sample \<open>j\<close> was called with (not the angles
  the failed call returned). So the guess of a sample is the result of the most recent
  converged sample before it, and the guess the loop started with when no earlier
  sample converged. A sample that does not converge is recorded as \<^verbatim>\<open>nan\<close> in both
  output lists, a converged one in degrees. \<^verbatim>\<open>generate_figure_a\<close> runs this loop from the
  guess of lines 162-167.
\<close>

theorem sweep_warm_start:
  fixes r1 r2 r3 r4 :: real and theta2_range :: "real list"
    and calls :: "(real \<times> real \<times> real) list"
  defines "n \<equiv> length theta2_range"
  defines "guess \<equiv> \<lambda>i. snd (calls ! i)"
  defines "res \<equiv> \<lambda>i. newton_raphson_4bar r1 r2 r3 r4 (theta2_range ! i) (guess i) False"
  assumes "sweep_loop r1 r2 r3 r4 theta2_range g0 [] [] [] = (theta3_sol, theta4_sol, calls)"
  shows "length theta3_sol = n \<and> length theta4_sol = n \<and> map fst calls = theta2_range \<and>
    (\<forall>j<n. theta3_sol ! j =
              (if res_converged (res j) then Deg (degrees (fst (res_angles (res j)))) else NaN) \<and>
            theta4_sol ! j =
              (if res_converged (res j) then Deg (degrees (snd (res_angles (res j)))) else NaN)) \<and>
    (\<forall>j. Suc j < n \<longrightarrow>
       guess (Suc j) = (if res_converged (res j) then res_angles (res j) else guess j)) \<and>
    (\<forall>i j. i < j \<and> j < n \<and> res_converged (res i) \<and>
       (\<forall>m. i < m \<and> m < j \<longrightarrow> \<not> res_converged (res m)) \<longrightarrow> guess j = res_angles (res i)) \<and>
    (\<forall>j<n. (\<forall>m<j. \<not> res_converged (res m)) \<longrightarrow> guess j = g0)"
proof -
  note tr = sweep_loop_trace [OF assms(4)]
  have step: "guess (Suc i) = (if res_converged (res i) then res_angles (res i) else guess i)"
    if "Suc i < n" for i
  proof -
    from that have "i < length theta2_range" "Suc i < length theta2_range"
      by (simp_all add: n_def)
    with tr show ?thesis unfolding guess_def res_def by blast
  qed
  have g0: "guess 0 = g0" if "0 < n"
    using tr that unfolding guess_def n_def by auto
  have recent: "guess j = res_angles (res i)"
    if "i < j \<and> j < n \<and> res_converged (res i) \<and> (\<forall>m. i < m \<and> m < j \<longrightarrow> \<not> res_converged (res m))"
    for i j
    using that chain_most_recent [of n guess "\<lambda>i. res_converged (res i)" "\<lambda>i. res_angles (res i)" i j, OF step]
    by blast
  have initial: "guess j = g0" if "j < n" "\<forall>m<j. \<not> res_converged (res m)" for j
    using that chain_initial [of n guess "\<lambda>i. res_converged (res i)" "\<lambda>i. res_angles (res i)" j, OF step] g0
    by auto
  show ?thesis
  proof (intro conjI allI impI)
    show "length theta3_sol = n" "length theta4_sol = n" "map fst calls = theta2_range"
      using tr unfolding n_def by blast+
  next
    fix j assume "j < n"
    then have "j < length theta2_range" by (simp add: n_def)
    with tr show "theta3_sol ! j =
        (if res_converged (res j) then Deg (degrees (fst (res_angles (res j)))) else NaN)"
      and "theta4_sol ! j =
        (if res_converged (res j) then Deg (degrees (snd (res_angles (res j)))) else NaN)"
      unfolding guess_def res_def by blast+
  next
    fix j assume "Suc j < n"
    then show "guess (Suc j) = (if res_converged (res j) then res_angles (res j) else guess j)"
      by (rule step)
  next
    fix i j
    assume "i < j \<and> j < n \<and> res_converged (res i) \<and>
       (\<forall>m. i < m \<and> m < j \<longrightarrow> \<not> res_converged (res m))"
    then show "guess j = res_angles (res i)" by (rule recent)
  next
    fix j assume "j < n" "\<forall>m<j. \<not> res_converged (res m)"
    then show "guess j = g0" by (rule initial)
  qed
qed

theorem sweep_warm_start_witness:
  "fst (sweep_loop (2 * pi - 1) (2 * pi - 1) 1 1 [90, 90] (pi / 2, 0) [] [] []) ! 0 = NaN \<and>
   snd (snd (snd (sweep_loop (2 * pi - 1) (2 * pi - 1) 1 1 [90, 90] (pi / 2, 0) [] [] [])) ! 1) =
     (pi / 2, 0) \<and>
   fst (sweep_loop 2 1 3 2 [0, 0] (0, 0) [] [] []) ! 0 = Deg 0 \<and>
   snd (snd (snd (sweep_loop 2 1 3 2 [0, 0] (0, 0) [] [] [])) ! 1) = (0, 0)"
proof -
  define X where "X = sweep_loop (2 * pi - 1) (2 * pi - 1) 1 1 [90, 90] (pi / 2, 0) [] [] []"
  define Y where "Y = sweep_loop 2 1 3 2 [0, 0] (0, 0) [] [] []"
  have x: "sweep_loop (2 * pi - 1) (2 * pi - 1) 1 1 [90, 90] (pi / 2, 0) [] [] [] =
      (fst X, fst (snd X), snd (snd X))"
    unfolding X_def by (simp only: prod.collapse)
  have y: "sweep_loop 2 1 3 2 [0, 0] (0, 0) [] [] [] = (fst Y, fst (snd Y), snd (snd Y))"
    unfolding Y_def by (simp only: prod.collapse)
  have l: "(0::nat) < length [90, 90::real]" "Suc 0 < length [90, 90::real]"
    "\<forall>m<(0::nat). \<not> res_converged (newton_raphson_4bar (2 * pi - 1) (2 * pi - 1) 1 1 ([90, 90] ! m)
        (snd (snd (snd X) ! m)) False)"
    "(0::nat) < length [0, 0::real]" "Suc 0 < length [0, 0::real]"
    "\<forall>m<(0::nat). \<not> res_converged (newton_raphson_4bar 2 1 3 2 ([0, 0] ! m)
        (snd (snd (snd Y) ! m)) False)"
    by simp_all
  note wx = sweep_warm_start [OF x]
  note wy = sweep_warm_start [OF y]
  from wx l(1,3) have x0: "snd (snd (snd X) ! 0) = (pi / 2, 0)" by blast
  from wx l(1) have "fst X ! 0 =
      (if res_converged (newton_raphson_4bar (2 * pi - 1) (2 * pi - 1) 1 1 ([90, 90] ! 0) (snd (snd (snd X) ! 0)) False)
       then Deg (degrees (fst (res_angles (newton_raphson_4bar (2 * pi - 1) (2 * pi - 1) 1 1 ([90, 90] ! 0) (snd (snd (snd X) ! 0)) False))))
       else NaN)"
    by blast
  then have x3: "fst X ! 0 = NaN"
    by (simp add: x0 orbit_result res_simps)
  from wx l(2) have "snd (snd (snd X) ! Suc 0) =
      (if res_converged (newton_raphson_4bar (2 * pi - 1) (2 * pi - 1) 1 1 ([90, 90] ! 0) (snd (snd (snd X) ! 0)) False)
       then res_angles (newton_raphson_4bar (2 * pi - 1) (2 * pi - 1) 1 1 ([90, 90] ! 0) (snd (snd (snd X) ! 0)) False)
       else snd (snd (snd X) ! 0))"
    by blast
  then have x1: "snd (snd (snd X) ! 1) = (pi / 2, 0)"
    by (simp add: x0 orbit_result res_simps)
  from wy l(4,6) have y0: "snd (snd (snd Y) ! 0) = (0, 0)" by blast
  from wy l(4) have "fst Y ! 0 =
      (if res_converged (newton_raphson_4bar 2 1 3 2 ([0, 0] ! 0) (snd (snd (snd Y) ! 0)) False)
       then Deg (degrees (fst (res_angles (newton_raphson_4bar 2 1 3 2 ([0, 0] ! 0) (snd (snd (snd Y) ! 0)) False))))
       else NaN)"
    by blast
  then have y3: "fst Y ! 0 = Deg 0"
    by (simp add: y0 rest_result res_simps degrees_def)
  from wy l(5) have "snd (snd (snd Y) ! Suc 0) =
      (if res_converged (newton_raphson_4bar 2 1 3 2 ([0, 0] ! 0) (snd (snd (snd Y) ! 0)) False)
       then res_angles (newton_raphson_4bar 2 1 3 2 ([0, 0] ! 0) (snd (snd (snd Y) ! 0)) False)
       else snd (snd (snd Y) ! 0))"
    by blast
  then have y1: "snd (snd (snd Y) ! 1) = (0, 0)"
    by (simp add: y0 rest_result res_simps)
  from x3 x1 y3 y1 show ?thesis
    unfolding X_def Y_def by (intro conjI)
qed

text \<open>
  C8. When \<^verbatim>\<open>analytical_solution\<close> returns a pair with \<^verbatim>\<open>None\<close> in either position for the
  first sample, the sweep calls the solver for that sample with the fixed guess
  \<open>(radians 45, radians 45)\<close> and records the outcome of that call: the angles in
  degrees when it converged, \<^verbatim>\<open>nan\<close> when it did not.
\<close>

theorem first_sample_fallback:
  assumes "analytical_solution r1 r2 r3 r4 first = Inr (t3_init, t4_init)"
    and "t3_init = None \<or> t4_init = None"
  shows "\<exists>theta3_sol theta4_sol calls.
    position_sweep r1 r2 r3 r4 (first # others) = Inr (theta3_sol, theta4_sol, calls) \<and>
    calls ! 0 = (first, (radians 45, radians 45)) \<and>
    theta3_sol ! 0 =
      (if res_converged (newton_raphson_4bar r1 r2 r3 r4 first (radians 45, radians 45) False)
       then Deg (degrees (fst (res_angles
              (newton_raphson_4bar r1 r2 r3 r4 first (radians 45, radians 45) False))))
       else NaN) \<and>
    theta4_sol ! 0 =
      (if res_converged (newton_raphson_4bar r1 r2 r3 r4 first (radians 45, radians 45) False)
       then Deg (degrees (snd (res_angles
              (newton_raphson_4bar r1 r2 r3 r4 first (radians 45, radians 45) False))))
       else NaN)"
proof -
  let ?res = "newton_raphson_4bar r1 r2 r3 r4 first (radians 45, radians 45) False"
  let ?g = "if res_converged ?res then res_angles ?res else (radians 45, radians 45)"
  obtain A B C where tl: "sweep_loop r1 r2 r3 r4 others ?g [] [] [] = (A, B, C)"
    by (cases "sweep_loop r1 r2 r3 r4 others ?g [] [] []") auto
  have "position_sweep r1 r2 r3 r4 (first # others) =
      Inr (sweep_loop r1 r2 r3 r4 (first # others) (radians 45, radians 45) [] [] [])"
    unfolding position_sweep_def using assms
    by (simp only: list.case sum.case prod.case Let_def if_True simp_thms)
  then show ?thesis
    unfolding sweep_loop_Cons [OF tl] by simp
qed

theorem first_sample_fallback_witness:
  "(\<exists>theta3_sol theta4_sol calls.
      position_sweep 20 1 1 1 [0] = Inr (theta3_sol, theta4_sol, calls) \<and>
      calls ! 0 = (0, (radians 45, radians 45)) \<and> theta3_sol ! 0 = NaN \<and> theta4_sol ! 0 = NaN) \<and>
   (\<exists>theta3_sol theta4_sol calls.
      position_sweep 1 2 2 1 [0] = Inr (theta3_sol, theta4_sol, calls) \<and>
      calls ! 0 = (0, (radians 45, radians 45)))"
proof
  have a: "analytical_solution 20 1 1 1 0 = Inr (None, None)"
    by (simp add: analytical_solution_def py_div_def radians_def Let_def)
  from first_sample_fallback [OF a, of "[]"]
  show "\<exists>theta3_sol theta4_sol calls.
      position_sweep 20 1 1 1 [0] = Inr (theta3_sol, theta4_sol, calls) \<and>
      calls ! 0 = (0, (radians 45, radians 45)) \<and> theta3_sol ! 0 = NaN \<and> theta4_sol ! 0 = NaN"
    by (simp add: fallback_result res_simps)
next
  have b: "analytical_solution 1 2 2 1 0 = Inr (Some (pi / 2), None)"
    by (simp add: analytical_solution_def py_div_def np_div_def radians_def Let_def arctan_one)
  from first_sample_fallback [OF b, of "[]"]
  show "\<exists>theta3_sol theta4_sol calls.
      position_sweep 1 2 2 1 [0] = Inr (theta3_sol, theta4_sol, calls) \<and>
      calls ! 0 = (0, (radians 45, radians 45))"
    by blast
qed

end
